theory Spec2Isabelle
  imports Main "HOL-Library.Word"
begin

section \<open>The Supabase relay proxy (relay.py)\<close>

text \<open>
  The relay is one FastAPI module. Its handler \<open>proxy\<close> reads the inbound body, decides
  what to forward, issues one authenticated POST to the upstream and translates the
  outcome; \<open>get_openapi_schema\<close> serves the API schema.

  Python values are modelled as follows.
  \<^item> \<open>bytes\<close> is a list of 8-bit characters.
  \<^item> \<open>str\<close> is represented by its UTF-8 encoding, a lone surrogate (which a JSON escape
    such as \<open>\ud800\<close> produces) by the three bytes that the \<open>surrogatepass\<close> handler
    writes for it. So \<open>bytes.decode('utf-8')\<close> is the strict validity check and leaves
    the representation unchanged, a \<open>str\<close> has a lone surrogate exactly when its bytes
    are not strict UTF-8, and a substring or equality test against an ASCII literal
    is the same on code points and on their encoding.
  \<^item> The objects \<open>json.loads\<close> produces are the datatype \<open>json\<close>; a dictionary is the
    list of its items.
  \<^item> A raised exception is the \<open>Inl\<close> of a sum; each \<open>try\<close>/\<open>except\<close> of the source is
    a case distinction on it.
  \<^item> The functions of the standard library and of httpx (\<open>json.loads\<close>, \<open>json.dumps\<close>,
    \<open>client.post\<close>, \<open>str(e)\<close>, \<open>os.getenv\<close>) are fields of the record \<open>env\<close>:
    every theorem holds whatever they compute.
  \<^item> \<open>print\<close> appends a line to the log; the lines are kept as events, not formatted.
    The standard output is UTF-8 with the strict error handler, the default, so
    printing a text with a lone surrogate raises \<open>UnicodeEncodeError\<close>. Two prints can meet one: the warning of line 76, which
    interpolates the \<open>name\<close> of the envelope, and line 104, which interpolates the
    parsed upstream answer. The other prints write text that has none: the endpoint
    (the server decodes it from the URL, replacing what is ill-formed), \<open>body_str\<close> (the
    result of the strict decoding), the output of \<open>json.dumps\<close> (ASCII, since
    \<open>ensure_ascii\<close> is left on), \<open>response.text\<close> (decoded with replacement) and the
    message of an exception (which escapes what it quotes).
\<close>

subsection \<open>Data\<close>

type_synonym bytes = string
type_synonym str = string

datatype json =
    JNull
  | JBool bool
  | JInt int
  | JFloat "64 word"
  | JStr str
  | JArr "json list"
  | JObj "(str \<times> json) list"

datatype type_error =
    NotIterable json
  | BadIndex json
  | UnexpectedKeyword str

datatype exn =
    UnicodeDecodeError bytes
  | UnicodeEncodeError str
  | JSONDecodeError str
  | TypeError type_error
  | AttributeError json str
  | KeyError str
  | TimeoutException str
  | ConnectError str
  | OtherException str

datatype http_method = GET | HEAD | POST

record request =
  req_method :: http_method
  req_url :: str
  req_content :: str
  req_headers :: "(str \<times> str) list"
  req_auth :: "str \<times> str"
  req_timeout :: int

text \<open>
  The response object of httpx: \<open>resp_json\<close> is what \<open>response.json()\<close> does (it returns
  the parsed body or raises), \<open>resp_text\<close> is \<open>response.text\<close>.
\<close>

record response =
  resp_status_code :: int
  resp_json :: "exn + json"
  resp_text :: str

record env =
  getenv :: "str \<Rightarrow> str option"
  json_loads :: "str \<Rightarrow> exn + json"
  json_dumps :: "json \<Rightarrow> str"
  client_post :: "request \<Rightarrow> exn + response"
  exc_str :: "exn \<Rightarrow> str"

datatype log_line =
    LogReceived str
  | LogRequestBody str
  | LogWarning json str
  | LogForwarding str
  | LogNoFunctionCall
  | LogInvalidJSON
  | LogResponse json
  | LogResponseNotJSON str
  | LogError str

text \<open>
  What one invocation of \<open>proxy\<close> does: the lines it printed, the outbound calls it
  issued (the arguments of \<open>client.post\<close>), and the value it returned.
\<close>

record outcome =
  printed :: "log_line list"
  calls :: "request list"
  returned :: json

subsection \<open>Strict UTF-8\<close>

definition cont :: "nat \<Rightarrow> bool" where
  "cont b = (0x80 \<le> b \<and> b \<le> 0xBF)"

text \<open>
  \<open>utf8_char b bs\<close>: the number of continuation bytes that the lead byte \<open>b\<close> takes
  from \<open>bs\<close>, or \<open>None\<close> where the sequence is ill-formed (a stray continuation
  byte, an overlong form, a surrogate, a code point above U+10FFFF, a truncated
  sequence).
\<close>

definition utf8_char :: "nat \<Rightarrow> nat list \<Rightarrow> nat option" where
  "utf8_char b bs =
     (if b < 0x80 then Some 0
      else if 0xC2 \<le> b \<and> b \<le> 0xDF then
        (case bs of
           b1 # _ \<Rightarrow> if cont b1 then Some 1 else None
         | _ \<Rightarrow> None)
      else if 0xE0 \<le> b \<and> b \<le> 0xEF then
        (case bs of
           b1 # b2 # _ \<Rightarrow>
             if (if b = 0xE0 then 0xA0 else 0x80) \<le> b1
                \<and> b1 \<le> (if b = 0xED then 0x9F else 0xBF) \<and> cont b2
             then Some 2 else None
         | _ \<Rightarrow> None)
      else if 0xF0 \<le> b \<and> b \<le> 0xF4 then
        (case bs of
           b1 # b2 # b3 # _ \<Rightarrow>
             if (if b = 0xF0 then 0x90 else 0x80) \<le> b1
                \<and> b1 \<le> (if b = 0xF4 then 0x8F else 0xBF) \<and> cont b2 \<and> cont b3
             then Some 3 else None
         | _ \<Rightarrow> None)
      else None)"

function valid_utf8 :: "nat list \<Rightarrow> bool" where
  "valid_utf8 [] = True"
| "valid_utf8 (b # bs) =
     (case utf8_char b bs of
        None \<Rightarrow> False
      | Some k \<Rightarrow> valid_utf8 (drop k bs))"
  by pat_completeness auto
termination
  by (relation "measure length") auto

text \<open>\<open>body_bytes.decode('utf-8')\<close>; \<open>None\<close> is the UnicodeDecodeError.\<close>

definition decode_utf8 :: "bytes \<Rightarrow> str option" where
  "decode_utf8 body_bytes =
     (if valid_utf8 (map of_char body_bytes) then Some body_bytes else None)"

text \<open>
  Whether the standard output can encode a text: it can unless the text has a lone
  surrogate.
\<close>

definition encodable :: "str \<Rightarrow> bool" where
  "encodable s = valid_utf8 (map of_char s)"

subsection \<open>Python operators on parsed JSON\<close>

text \<open>\<open>needle in haystack\<close> on two strings: the substring test.\<close>

fun str_contains :: "str \<Rightarrow> str \<Rightarrow> bool" where
  "str_contains [] needle = (needle = [])"
| "str_contains (c # cs) needle =
     (take (length needle) (c # cs) = needle \<or> str_contains cs needle)"

text \<open>
  \<open>key in obj\<close>: the keys of a dict, the elements of a list, the substrings of a
  string; any other object is not iterable.
\<close>

fun py_in :: "str \<Rightarrow> json \<Rightarrow> exn + bool" where
  "py_in key (JObj items) = Inr (key \<in> set (map fst items))"
| "py_in key (JArr xs) = Inr (JStr key \<in> set xs)"
| "py_in key (JStr s) = Inr (str_contains s key)"
| "py_in key v = Inl (TypeError (NotIterable v))"

text \<open>\<open>obj[key]\<close> with a string key: only a dict can be indexed by a string.\<close>

fun py_getitem :: "json \<Rightarrow> str \<Rightarrow> exn + json" where
  "py_getitem (JObj items) key =
     (case map_of items key of None \<Rightarrow> Inl (KeyError key) | Some v \<Rightarrow> Inr v)"
| "py_getitem v key = Inl (TypeError (BadIndex v))"

text \<open>\<open>obj.get(key, default)\<close>: only a dict has the method.\<close>

fun py_get :: "json \<Rightarrow> str \<Rightarrow> json \<Rightarrow> exn + json" where
  "py_get (JObj items) key dflt =
     Inr (case map_of items key of None \<Rightarrow> dflt | Some v \<Rightarrow> v)"
| "py_get v key dflt = Inl (AttributeError v ''get'')"

text \<open>The truth value of an object in a condition.\<close>

fun py_bool :: "json \<Rightarrow> bool" where
  "py_bool JNull = False"
| "py_bool (JBool b) = b"
| "py_bool (JInt i) = (i \<noteq> 0)"
| "py_bool (JFloat w) = (w \<noteq> 0 \<and> w \<noteq> 0x8000000000000000)"
| "py_bool (JStr s) = (s \<noteq> [])"
| "py_bool (JArr xs) = (xs \<noteq> [])"
| "py_bool (JObj items) = (items \<noteq> [])"

text \<open>
  \<open>print(f"... {v} ...")\<close>: the exception it raises, if any. A \<open>str\<close> is written as it
  is, and cannot be encoded when it has a lone surrogate; any other object is
  written through its \<open>repr\<close>, which escapes every lone surrogate inside it.
\<close>

fun py_print_value :: "json \<Rightarrow> exn option" where
  "py_print_value (JStr s) = (if encodable s then None else Some (UnicodeEncodeError s))"
| "py_print_value v = None"

text \<open>The test of \<open>except json.JSONDecodeError\<close>.\<close>

fun is_JSONDecodeError :: "exn \<Rightarrow> bool" where
  "is_JSONDecodeError (JSONDecodeError m) = True"
| "is_JSONDecodeError e = False"

subsection \<open>Configuration\<close>

definition UPSTREAM :: "env \<Rightarrow> str" where
  "UPSTREAM env =
     (case getenv env ''UPSTREAM_URL'' of
        None \<Rightarrow> ''http://localhost:8000/mcp''
      | Some u \<Rightarrow> u)"

definition AUTH :: "str \<times> str" where
  "AUTH = (''instabids'', ''secure123password'')"

subsection \<open>The handler \<open>proxy\<close>\<close>

text \<open>
  Lines 66 to 84, the body of the inner \<open>try\<close>: the lines printed and either the
  exception raised or \<open>forward_body\<close>. The warning of line 76 is printed when the
  \<open>name\<close> is true and differs from the endpoint, and the print raises when the \<open>name\<close>
  cannot be encoded.
\<close>

definition proxy_try_body :: "env \<Rightarrow> str \<Rightarrow> str \<Rightarrow> log_line list \<times> (exn + str)" where
  "proxy_try_body env endpoint body_str =
     (case json_loads env body_str of
        Inl e \<Rightarrow> ([], Inl e)
      | Inr body_json \<Rightarrow>
          (case py_in ''function_call'' body_json of
             Inl e \<Rightarrow> ([], Inl e)
           | Inr True \<Rightarrow>
               (case py_getitem body_json ''function_call'' of
                  Inl e \<Rightarrow> ([], Inl e)
                | Inr function_call \<Rightarrow>
                    (case py_get function_call ''name'' JNull of
                       Inl e \<Rightarrow> ([], Inl e)
                     | Inr function_name \<Rightarrow>
                         (case py_get function_call ''parameters'' (JObj []) of
                            Inl e \<Rightarrow> ([], Inl e)
                          | Inr parameters \<Rightarrow>
                              (let mismatch =
                                     (py_bool function_name \<and> function_name \<noteq> JStr endpoint)
                               in (case (if mismatch then py_print_value function_name
                                         else None) of
                                     Some e \<Rightarrow> ([], Inl e)
                                   | None \<Rightarrow>
                                       (let warning =
                                              (if mismatch
                                               then [LogWarning function_name endpoint] else []);
                                            forward_body = json_dumps env parameters
                                        in (warning @ [LogForwarding forward_body],
                                            Inr forward_body)))))))
           | Inr False \<Rightarrow> ([LogNoFunctionCall], Inr body_str)))"

text \<open>
  Lines 65 to 88: the inner \<open>try\<close> with its handler, which catches
  \<open>json.JSONDecodeError\<close> only and forwards the body as it is.
\<close>

definition proxy_forward_body :: "env \<Rightarrow> str \<Rightarrow> str \<Rightarrow> log_line list \<times> (exn + str)" where
  "proxy_forward_body env endpoint body_str =
     (case proxy_try_body env endpoint body_str of
        (out, Inl (JSONDecodeError m)) \<Rightarrow> (out @ [LogInvalidJSON], Inr body_str)
      | (out, r) \<Rightarrow> (out, r))"

text \<open>Lines 112 to 115: the handler of the outer \<open>try\<close>.\<close>

definition proxy_except :: "env \<Rightarrow> log_line list \<Rightarrow> request list \<Rightarrow> exn \<Rightarrow> outcome" where
  "proxy_except env out sent e =
     (let error_msg = exc_str env e
      in \<lparr>printed = out @ [LogError error_msg], calls = sent,
          returned = JObj [(''error'', JStr error_msg), (''status'', JInt 500)]\<rparr>)"

text \<open>Lines 92 to 98: the arguments of \<open>client.post\<close>.\<close>

definition proxy_request :: "env \<Rightarrow> str \<Rightarrow> str \<Rightarrow> request" where
  "proxy_request env endpoint forward_body =
     \<lparr>req_method = POST,
      req_url = UPSTREAM env @ ''/'' @ endpoint,
      req_content = forward_body,
      req_headers = [(''Content-Type'', ''application/json'')],
      req_auth = AUTH,
      req_timeout = 30\<rparr>"

text \<open>
  Lines 100 to 111, inside the outer \<open>try\<close>: the translation of the upstream response,
  as the lines printed and either the exception that escapes or the value returned.
  Line 104 prints the parsed answer before line 111 returns it, and the print raises
  when the answer cannot be encoded.
\<close>

definition proxy_response :: "response \<Rightarrow> log_line list \<times> (exn + json)" where
  "proxy_response response =
     (let response_status = resp_status_code response
      in (case resp_json response of
            Inr response_json \<Rightarrow>
              (case py_print_value response_json of
                 Some e \<Rightarrow> ([], Inl e)
               | None \<Rightarrow> ([LogResponse response_json], Inr response_json))
          | Inl (JSONDecodeError m) \<Rightarrow>
              (let response_text = resp_text response
               in ([LogResponseNotJSON response_text],
                   Inr (JObj [(''response'', JStr response_text),
                              (''status'', JInt response_status),
                              (''error'', JNull)])))
          | Inl e \<Rightarrow> ([], Inl e)))"

definition proxy :: "env \<Rightarrow> str \<Rightarrow> bytes \<Rightarrow> outcome" where
  "proxy env endpoint body_bytes =
     (case decode_utf8 body_bytes of
        None \<Rightarrow> proxy_except env [] [] (UnicodeDecodeError body_bytes)
      | Some body_str \<Rightarrow>
          (let out0 = [LogReceived endpoint, LogRequestBody body_str]
           in (case proxy_forward_body env endpoint body_str of
                 (out1, Inl e) \<Rightarrow> proxy_except env (out0 @ out1) [] e
               | (out1, Inr forward_body) \<Rightarrow>
                   (let req = proxy_request env endpoint forward_body
                    in (case client_post env req of
                          Inl e \<Rightarrow> proxy_except env (out0 @ out1) [req] e
                        | Inr response \<Rightarrow>
                            (case proxy_response response of
                               (out2, Inl e) \<Rightarrow> proxy_except env (out0 @ out1 @ out2) [req] e
                             | (out2, Inr result) \<Rightarrow>
                                 \<lparr>printed = out0 @ out1 @ out2, calls = [req],
                                  returned = result\<rparr>))))))"

subsection \<open>The handler \<open>get_openapi_schema\<close>\<close>

text \<open>
  The handler builds its answer by calling a response class of the web framework with
  keyword arguments. The classes are not part of this module; what matters of them
  is which keywords their constructors take. A response is kept as the call that
  built it: the class and the arguments bound.
\<close>

datatype arg =
    ArgJson json
  | ArgStr str
  | ArgHeaders "(str \<times> str) list"
  | ArgBool bool

record http_response =
  resp_class :: str
  resp_args :: "(str \<times> arg) list"

text \<open>
  A call \<open>cls(k1=v1, ..., kn=vn)\<close> of a constructor whose parameters are \<open>params\<close>
  and that takes no \<open>**kwargs\<close>: the first keyword that names no parameter raises
  TypeError.
\<close>

definition py_construct :: "str \<Rightarrow> str list \<Rightarrow> (str \<times> arg) list \<Rightarrow> exn + http_response" where
  "py_construct cls params kwargs =
     (case filter (\<lambda>k. k \<notin> set params) (map fst kwargs) of
        [] \<Rightarrow> Inr \<lparr>resp_class = cls, resp_args = kwargs\<rparr>
      | k # _ \<Rightarrow> Inl (TypeError (UnexpectedKeyword k)))"

text \<open>
  What the handler takes from the framework: the schema \<open>app.openapi()\<close>,
  \<open>json.dumps(_, indent=2)\<close>, and the parameters of the constructors of \<open>Response\<close>
  and \<open>JSONResponse\<close>.
\<close>

record framework =
  app_openapi :: json
  json_dumps_indent2 :: "json \<Rightarrow> str"
  Response_params :: "str list"
  JSONResponse_params :: "str list"

text \<open>
  The constructors of Starlette, which FastAPI re-exports:
  \<open>Response.__init__(self, content, status_code, headers, media_type, background)\<close>,
  and the same for \<open>JSONResponse\<close>.
\<close>

definition starlette_params :: "str list" where
  "starlette_params = [''content'', ''status_code'', ''headers'', ''media_type'', ''background'']"

text \<open>
  \<open>request.headers.get("accept", "")\<close>: the headers are a list of pairs with
  lower-case names, as the server hands them over.
\<close>

definition get_openapi_schema :: "framework \<Rightarrow> (str \<times> str) list \<Rightarrow> exn + http_response" where
  "get_openapi_schema fw headers =
     (let schema = app_openapi fw;
          accept_header = (case map_of headers ''accept'' of None \<Rightarrow> [] | Some v \<Rightarrow> v)
      in if str_contains accept_header ''text/''
         then py_construct ''Response'' (Response_params fw)
                [(''content'', ArgStr (json_dumps_indent2 fw schema)),
                 (''media_type'', ArgStr ''text/plain; charset=utf-8'')]
         else py_construct ''JSONResponse'' (JSONResponse_params fw)
                [(''content'', ArgJson schema),
                 (''headers'', ArgHeaders [(''Content-Type'', ''application/json'')]),
                 (''gzip'', ArgBool True)])"

subsection \<open>Routing\<close>

text \<open>
  Line 30 creates the application with \<open>openapi_url\<close>, \<open>docs_url\<close> and \<open>redoc_url\<close> left at
  their defaults, so \<open>FastAPI()\<close> registers its own routes for the schema and the
  documentation pages before the decorators of the module add theirs, in the order
  of the source. A request goes to the first route whose path and method both match.
  \<open>Prefix p\<close> is a path that ends in a \<open>{name:path}\<close> parameter.
\<close>

datatype endpoint_fn =
    FastAPI_openapi
  | FastAPI_swagger_ui_html
  | FastAPI_swagger_ui_redirect
  | FastAPI_redoc_html
  | Proxy
  | Root
  | Health_check
  | Get_openapi_schema
  | Openapi_txt

datatype path_pattern = Exact str | Prefix str

record route =
  route_path :: path_pattern
  route_methods :: "http_method list"
  route_endpoint :: endpoint_fn

definition app_routes :: "route list" where
  "app_routes =
     [\<lparr>route_path = Exact ''/openapi.json'', route_methods = [GET, HEAD],
       route_endpoint = FastAPI_openapi\<rparr>,
      \<lparr>route_path = Exact ''/docs'', route_methods = [GET, HEAD],
       route_endpoint = FastAPI_swagger_ui_html\<rparr>,
      \<lparr>route_path = Exact ''/docs/oauth2-redirect'', route_methods = [GET, HEAD],
       route_endpoint = FastAPI_swagger_ui_redirect\<rparr>,
      \<lparr>route_path = Exact ''/redoc'', route_methods = [GET, HEAD],
       route_endpoint = FastAPI_redoc_html\<rparr>,
      \<lparr>route_path = Prefix ''/proxy/'', route_methods = [POST],
       route_endpoint = Proxy\<rparr>,
      \<lparr>route_path = Exact ''/'', route_methods = [GET],
       route_endpoint = Root\<rparr>,
      \<lparr>route_path = Exact ''/health'', route_methods = [GET],
       route_endpoint = Health_check\<rparr>,
      \<lparr>route_path = Exact ''/openapi.json'', route_methods = [GET],
       route_endpoint = Get_openapi_schema\<rparr>,
      \<lparr>route_path = Exact ''/openapi.txt'', route_methods = [GET],
       route_endpoint = Openapi_txt\<rparr>]"

fun path_matches :: "path_pattern \<Rightarrow> str \<Rightarrow> bool" where
  "path_matches (Exact p) path = (path = p)"
| "path_matches (Prefix p) path = (take (length p) path = p)"

definition resolve :: "http_method \<Rightarrow> str \<Rightarrow> endpoint_fn option" where
  "resolve m path =
     map_option route_endpoint
       (find (\<lambda>r. path_matches (route_path r) path \<and> m \<in> set (route_methods r)) app_routes)"

text \<open>The schema endpoint of FastAPI itself: \<open>JSONResponse(self.openapi())\<close>.\<close>

definition fastapi_openapi :: "framework \<Rightarrow> exn + http_response" where
  "fastapi_openapi fw =
     py_construct ''JSONResponse'' (JSONResponse_params fw)
       [(''content'', ArgJson (app_openapi fw))]"

text \<open>
  The answer to \<open>GET /openapi.json\<close>: that of the endpoint the request is routed to,
  \<open>None\<close> if that is neither of the two schema endpoints.
\<close>

definition openapi_json_response :: "framework \<Rightarrow> (str \<times> str) list \<Rightarrow> (exn + http_response) option" where
  "openapi_json_response fw headers =
     (case resolve GET ''/openapi.json'' of
        Some FastAPI_openapi \<Rightarrow> Some (fastapi_openapi fw)
      | Some Get_openapi_schema \<Rightarrow> Some (get_openapi_schema fw headers)
      | _ \<Rightarrow> None)"

subsection \<open>A concrete environment for the examples\<close>

text \<open>
  The examples below run the handler in a small fixed world. \<open>loads_table\<close> and
  \<open>dumps_table\<close> list what \<open>json.loads\<close> and \<open>json.dumps\<close> give on the texts and
  objects that the examples use; nothing else is looked up in them.
\<close>

text \<open>
  The \<open>str\<close> whose only code point is the lone surrogate U+D800, and the six ASCII
  characters of the JSON escape that denotes it.
\<close>

definition lone_surrogate :: str where
  "lone_surrogate = [CHR 0xED, CHR 0xA0, CHR 0x80]"

definition escape_ud800 :: str where
  "escape_ud800 = CHR 0x5C # ''ud800''"

definition loads_table :: "(str \<times> (exn + json)) list" where
  \<open>loads_table =
     [(''{"function_call": {"name": "list_tables", "parameters": {}}}'',
         Inr (JObj [(''function_call'',
                JObj [(''name'', JStr ''list_tables''), (''parameters'', JObj [])])])),
      (''{"function_call": {"name": "query", "parameters": {"sql": "SELECT 1"}}}'',
         Inr (JObj [(''function_call'',
                JObj [(''name'', JStr ''query''),
                      (''parameters'', JObj [(''sql'', JStr ''SELECT 1'')])])])),
      (''{"function_call": {"name": "other", "parameters": {"sql": "SELECT 1"}}}'',
         Inr (JObj [(''function_call'',
                JObj [(''name'', JStr ''other''),
                      (''parameters'', JObj [(''sql'', JStr ''SELECT 1'')])])])),
      (''{"function_call": {"name": "'' @ escape_ud800 @ ''", "parameters": {}}}'',
         Inr (JObj [(''function_call'',
                JObj [(''name'', JStr lone_surrogate), (''parameters'', JObj [])])])),
      (''{"function_call": "x"}'', Inr (JObj [(''function_call'', JStr ''x'')])),
      (''{"function_call": 1}'', Inr (JObj [(''function_call'', JInt 1)])),
      (''{"sql": "SELECT 1"}'', Inr (JObj [(''sql'', JStr ''SELECT 1'')])),
      (''5'', Inr (JInt 5)),
      (''not json'', Inl (JSONDecodeError ''Expecting value: line 1 column 1 (char 0)''))]\<close>

definition dumps_table :: "(json \<times> str) list" where
  \<open>dumps_table =
     [(JObj [], ''{}''),
      (JObj [(''sql'', JStr ''SELECT 1'')], ''{"sql": "SELECT 1"}'')]\<close>

text \<open>
  The upstream of the examples: \<open>list_tables\<close> and \<open>query\<close> answer with JSON,
  \<open>health\<close> with text, \<open>echo\<close> with the JSON string \<open>"\ud800"\<close>, \<open>binary\<close> with the single
  byte \<open>0xFF\<close> (which \<open>response.json()\<close> cannot decode and \<open>response.text\<close> replaces by
  U+FFFD), \<open>slow\<close> runs into the timeout, and nothing else is reachable.
\<close>

definition demo_upstream :: "request \<Rightarrow> exn + response" where
  \<open>demo_upstream req =
     (if req_url req = ''http://localhost:8000/mcp/list_tables''
        \<or> req_url req = ''http://localhost:8000/mcp/query''
      then Inr \<lparr>resp_status_code = 200,
                resp_json = Inr (JObj [(''rows'', JArr [])]),
                resp_text = ''{"rows": []}''\<rparr>
      else if req_url req = ''http://localhost:8000/mcp/health''
      then Inr \<lparr>resp_status_code = 200,
                resp_json = Inl (JSONDecodeError ''Expecting value: line 1 column 1 (char 0)''),
                resp_text = ''not json''\<rparr>
      else if req_url req = ''http://localhost:8000/mcp/echo''
      then Inr \<lparr>resp_status_code = 200,
                resp_json = Inr (JStr lone_surrogate),
                resp_text = ''"'' @ escape_ud800 @ ''"''\<rparr>
      else if req_url req = ''http://localhost:8000/mcp/binary''
      then Inr \<lparr>resp_status_code = 200,
                resp_json = Inl (UnicodeDecodeError [CHR 0xFF]),
                resp_text = [CHR 0xEF, CHR 0xBF, CHR 0xBD]\<rparr>
      else if req_url req = ''http://localhost:8000/mcp/slow''
      then Inl (TimeoutException ''timed out'')
      else Inl (ConnectError ''All connection attempts failed''))\<close>

text \<open>
  \<open>str(e)\<close> in the examples: the message an exception carries, and the name of the
  class for the exceptions the interpreter raises (their wording is not modelled).
\<close>

fun demo_str :: "exn \<Rightarrow> str" where
  "demo_str (UnicodeDecodeError b) = ''UnicodeDecodeError''"
| "demo_str (UnicodeEncodeError s) = ''UnicodeEncodeError''"
| "demo_str (JSONDecodeError m) = m"
| "demo_str (TypeError t) = ''TypeError''"
| "demo_str (AttributeError v a) = ''AttributeError''"
| "demo_str (KeyError k) = k"
| "demo_str (TimeoutException m) = m"
| "demo_str (ConnectError m) = m"
| "demo_str (OtherException m) = m"

definition demo_env :: env where
  "demo_env =
     \<lparr>getenv = (\<lambda>name. None),
      json_loads = (\<lambda>s. case map_of loads_table s of
                            Some r \<Rightarrow> r
                          | None \<Rightarrow> Inl (OtherException ''not in loads_table'')),
      json_dumps = (\<lambda>v. case map_of dumps_table v of
                            Some s \<Rightarrow> s
                          | None \<Rightarrow> ''not in dumps_table''),
      client_post = demo_upstream,
      exc_str = demo_str\<rparr>"

section \<open>Properties\<close>

subsection \<open>Decoding and the shape of a run\<close>

lemma valid_utf8_ascii:
  "\<forall>b \<in> set bs. b < 0x80 \<Longrightarrow> valid_utf8 bs"
  by (induction bs) (simp_all add: utf8_char_def)

lemma decode_utf8_ascii:
  "\<forall>c \<in> set body. (of_char c :: nat) < 0x80 \<Longrightarrow> decode_utf8 body = Some body"
  by (simp add: decode_utf8_def valid_utf8_ascii)

lemma encodable_ascii:
  "\<forall>c \<in> set s. (of_char c :: nat) < 0x80 \<Longrightarrow> encodable s"
  by (simp add: encodable_def valid_utf8_ascii)

lemma lone_surrogate_not_encodable: "\<not> encodable lone_surrogate"
  by (simp add: encodable_def lone_surrogate_def utf8_char_def)

lemma decode_utf8_encodable: "decode_utf8 body = Some s \<Longrightarrow> encodable s"
  by (simp add: decode_utf8_def encodable_def split: if_splits)

lemma decode_utf8_Some: "decode_utf8 body = Some s \<Longrightarrow> s = body"
  by (simp add: decode_utf8_def split: if_splits)

lemma try_envelope:
  assumes "json_loads env s = Inr (JObj items)"
    and "map_of items ''function_call'' = Some (JObj fc)"
    and "py_print_value (case map_of fc ''name'' of None \<Rightarrow> JNull | Some n \<Rightarrow> n) = None"
  shows "snd (proxy_try_body env endpoint s) =
           Inr (json_dumps env (case map_of fc ''parameters'' of None \<Rightarrow> JObj [] | Some p \<Rightarrow> p))"
proof -
  from assms(2) have "''function_call'' \<in> fst ` set items"
    by (metis map_of_SomeD fst_conv image_eqI)
  with assms show ?thesis
    by (simp add: proxy_try_body_def Let_def)
qed

lemma forward_envelope:
  assumes "json_loads env s = Inr (JObj items)"
    and "map_of items ''function_call'' = Some (JObj fc)"
    and "py_print_value (case map_of fc ''name'' of None \<Rightarrow> JNull | Some n \<Rightarrow> n) = None"
  shows "snd (proxy_forward_body env endpoint s) =
           Inr (json_dumps env (case map_of fc ''parameters'' of None \<Rightarrow> JObj [] | Some p \<Rightarrow> p))"
  using try_envelope[OF assms, of endpoint]
  by (cases "proxy_try_body env endpoint s") (simp add: proxy_forward_body_def)

lemma proxy_calls_forward:
  assumes "decode_utf8 body = Some s"
    and "snd (proxy_forward_body env endpoint s) = Inr fb"
  shows "calls (proxy env endpoint body) = [proxy_request env endpoint fb]"
  using assms
  by (cases "proxy_forward_body env endpoint s")
     (simp add: proxy_def Let_def proxy_except_def split: sum.splits prod.splits)

lemma proxy_no_call:
  assumes "decode_utf8 body = Some s"
    and "snd (proxy_forward_body env endpoint s) = Inl e"
  shows "calls (proxy env endpoint body) = []
       \<and> returned (proxy env endpoint body) =
           JObj [(''error'', JStr (exc_str env e)), (''status'', JInt 500)]"
  using assms
  by (cases "proxy_forward_body env endpoint s")
     (simp add: proxy_def Let_def proxy_except_def)

lemma proxy_called:
  assumes "calls (proxy env endpoint body) = [req]"
  shows "\<exists>fb. decode_utf8 body = Some body
            \<and> snd (proxy_forward_body env endpoint body) = Inr fb
            \<and> req = proxy_request env endpoint fb"
proof (cases "decode_utf8 body")
  case None
  with assms show ?thesis by (simp add: proxy_def proxy_except_def Let_def)
next
  case (Some s)
  then have s: "s = body" by (rule decode_utf8_Some)
  show ?thesis
  proof (cases "snd (proxy_forward_body env endpoint body)")
    case (Inl e)
    with Some s assms proxy_no_call[of body body env endpoint e] show ?thesis by simp
  next
    case (Inr fb)
    with Some s assms proxy_calls_forward[of body body env endpoint fb] show ?thesis by simp
  qed
qed

lemma proxy_after_call:
  assumes "calls (proxy env endpoint body) = [req]"
  shows "returned (proxy env endpoint body) =
           (case client_post env req of
              Inl e \<Rightarrow> JObj [(''error'', JStr (exc_str env e)), (''status'', JInt 500)]
            | Inr response \<Rightarrow>
                (case snd (proxy_response response) of
                   Inl e \<Rightarrow> JObj [(''error'', JStr (exc_str env e)), (''status'', JInt 500)]
                 | Inr result \<Rightarrow> result))"
proof -
  from proxy_called[OF assms] obtain fb where
    d: "decode_utf8 body = Some body" and
    f: "snd (proxy_forward_body env endpoint body) = Inr fb" and
    r: "req = proxy_request env endpoint fb" by blast
  show ?thesis using d f r
    by (cases "proxy_forward_body env endpoint body")
       (simp add: proxy_def Let_def proxy_except_def split: sum.splits prod.splits)
qed

lemma proxy_calls_at_most_one:
  "calls (proxy env endpoint body) = []
   \<or> (\<exists>fb. calls (proxy env endpoint body) = [proxy_request env endpoint fb])"
proof (cases "decode_utf8 body")
  case None
  then show ?thesis by (simp add: proxy_def proxy_except_def Let_def)
next
  case (Some s)
  show ?thesis
  proof (cases "snd (proxy_forward_body env endpoint s)")
    case (Inl e)
    from proxy_no_call[OF Some this] show ?thesis by simp
  next
    case (Inr fb)
    from proxy_calls_forward[OF Some this] show ?thesis by blast
  qed
qed

lemma proxy_determined_by_forward_body:
  assumes "decode_utf8 body = Some s" and "decode_utf8 body' = Some s'"
    and "snd (proxy_forward_body env endpoint s) = snd (proxy_forward_body env endpoint s')"
  shows "calls (proxy env endpoint body) = calls (proxy env endpoint body')
       \<and> returned (proxy env endpoint body) = returned (proxy env endpoint body')"
  using assms
  by (cases "proxy_forward_body env endpoint s"; cases "proxy_forward_body env endpoint s'")
     (simp add: proxy_def Let_def proxy_except_def split: sum.splits prod.splits)

lemma proxy_invalid_json_verbatim:
  assumes "decode_utf8 body = Some s"
    and "json_loads env s = Inl (JSONDecodeError m)"
  shows "calls (proxy env endpoint body) = [proxy_request env endpoint body]"
proof -
  have "snd (proxy_forward_body env endpoint s) = Inr s"
    using assms(2) by (simp add: proxy_forward_body_def proxy_try_body_def)
  from proxy_calls_forward[OF assms(1) this] decode_utf8_Some[OF assms(1)]
  show ?thesis by simp
qed

lemma proxy_object_without_function_call_verbatim:
  assumes "decode_utf8 body = Some s"
    and "json_loads env s = Inr (JObj items)"
    and "map_of items ''function_call'' = None"
  shows "calls (proxy env endpoint body) = [proxy_request env endpoint body]"
proof -
  from assms(3) have "''function_call'' \<notin> fst ` set items"
    by (simp add: map_of_eq_None_iff)
  then have "snd (proxy_forward_body env endpoint s) = Inr s"
    using assms(2) by (simp add: proxy_forward_body_def proxy_try_body_def)
  from proxy_calls_forward[OF assms(1) this] decode_utf8_Some[OF assms(1)]
  show ?thesis by simp
qed

lemma demo_passthrough:
  \<open>calls (proxy demo_env endpoint ''{"sql": "SELECT 1"}'') =
     [proxy_request demo_env endpoint ''{"sql": "SELECT 1"}'']\<close>
proof -
  let ?body = \<open>''{"sql": "SELECT 1"}''\<close>
  have d: "decode_utf8 ?body = Some ?body"
    by (rule decode_utf8_ascii) simp
  have l: "json_loads demo_env ?body = Inr (JObj [(''sql'', JStr ''SELECT 1'')])"
    by (simp add: demo_env_def loads_table_def)
  have m: "map_of [(''sql'', JStr ''SELECT 1'')] ''function_call'' = None"
    by simp
  from proxy_object_without_function_call_verbatim[OF d l m] show ?thesis .
qed

lemma demo_list_tables:
  \<open>calls (proxy demo_env ''list_tables''
            ''{"function_call": {"name": "list_tables", "parameters": {}}}'') =
     [proxy_request demo_env ''list_tables'' ''{}'']\<close>
proof -
  let ?body = \<open>''{"function_call": {"name": "list_tables", "parameters": {}}}''\<close>
  let ?fc = "[(''name'', JStr ''list_tables''), (''parameters'', JObj [])]"
  have d: "decode_utf8 ?body = Some ?body"
    by (rule decode_utf8_ascii) simp
  have l: "json_loads demo_env ?body = Inr (JObj [(''function_call'', JObj ?fc)])"
    by (simp add: demo_env_def loads_table_def)
  have m: "map_of [(''function_call'', JObj ?fc)] ''function_call'' = Some (JObj ?fc)"
    by simp
  have "encodable ''list_tables''"
    by (rule encodable_ascii) simp
  then have p: "py_print_value (case map_of ?fc ''name'' of None \<Rightarrow> JNull | Some n \<Rightarrow> n) = None"
    by simp
  have j: "json_dumps demo_env (JObj []) = ''{}''"
    by (simp add: demo_env_def dumps_table_def)
  from forward_envelope[OF l m p, of "''list_tables''"] j
  have "snd (proxy_forward_body demo_env ''list_tables'' ?body) = Inr ''{}''"
    by simp
  from proxy_calls_forward[OF d this] show ?thesis .
qed

subsection \<open>The forward payload\<close>

text \<open>
  Claim C1, amended. When the body decodes and parses to a JSON object whose
  \<open>function_call\<close> entry is itself a JSON object, and the \<open>name\<close> in it can be printed (it
  is not a string with a lone surrogate), \<open>proxy\<close> issues exactly one outbound call,
  and its content is \<open>json.dumps\<close> of the \<open>parameters\<close> entry of that object, or of the
  empty dict where the entry is absent; it is not the serialization of the whole
  envelope. The example of the specification is the witness.
\<close>

theorem proxy_forwards_parameters:
  assumes "decode_utf8 body = Some s"
    and "json_loads env s = Inr (JObj items)"
    and "map_of items ''function_call'' = Some (JObj fc)"
    and "py_print_value (case map_of fc ''name'' of None \<Rightarrow> JNull | Some n \<Rightarrow> n) = None"
  shows "calls (proxy env endpoint body) =
           [proxy_request env endpoint
              (json_dumps env (case map_of fc ''parameters'' of None \<Rightarrow> JObj [] | Some p \<Rightarrow> p))]"
  using assms(1) forward_envelope[OF assms(2,3,4), of endpoint]
  by (rule proxy_calls_forward)

theorem proxy_forwards_parameters_witness:
  \<open>calls (proxy demo_env ''list_tables''
            ''{"function_call": {"name": "list_tables", "parameters": {}}}'') =
     [\<lparr>req_method = POST, req_url = ''http://localhost:8000/mcp/list_tables'',
       req_content = ''{}'',
       req_headers = [(''Content-Type'', ''application/json'')],
       req_auth = (''instabids'', ''secure123password''), req_timeout = 30\<rparr>]\<close>
proof -
  let ?body = \<open>''{"function_call": {"name": "list_tables", "parameters": {}}}''\<close>
  have d: "decode_utf8 ?body = Some ?body"
    by (rule decode_utf8_ascii) simp
  have l: "json_loads demo_env ?body =
             Inr (JObj [(''function_call'',
                    JObj [(''name'', JStr ''list_tables''), (''parameters'', JObj [])])])"
    by (simp add: demo_env_def loads_table_def)
  have m: "map_of [(''function_call'',
                    JObj [(''name'', JStr ''list_tables''), (''parameters'', JObj [])])]
             ''function_call'' =
           Some (JObj [(''name'', JStr ''list_tables''), (''parameters'', JObj [])])"
    by simp
  have "encodable ''list_tables''"
    by (rule encodable_ascii) simp
  then have p: "py_print_value
                  (case map_of [(''name'', JStr ''list_tables''), (''parameters'', JObj [])]
                          ''name'' of None \<Rightarrow> JNull | Some n \<Rightarrow> n) = None"
    by simp
  show ?thesis
    using proxy_forwards_parameters[OF d l m p, of "''list_tables''"]
    by (simp add: proxy_request_def UPSTREAM_def AUTH_def demo_env_def dumps_table_def)
qed

text \<open>
  As the claim is worded, for every body that parses to an object with the key
  \<open>function_call\<close>, it fails: with the string \<open>"x"\<close> under that key the body parses to
  such an object and no outbound call is made.
\<close>

theorem proxy_function_call_string_counterexample:
  \<open>json_loads demo_env ''{"function_call": "x"}'' = Inr (JObj [(''function_call'', JStr ''x'')])
   \<and> calls (proxy demo_env ''x'' ''{"function_call": "x"}'') = []\<close>
proof -
  let ?body = \<open>''{"function_call": "x"}''\<close>
  have d: "decode_utf8 ?body = Some ?body"
    by (rule decode_utf8_ascii) simp
  have l: "json_loads demo_env ?body = Inr (JObj [(''function_call'', JStr ''x'')])"
    by (simp add: demo_env_def loads_table_def)
  have "snd (proxy_forward_body demo_env ''x'' ?body) = Inl (AttributeError (JStr ''x'') ''get'')"
    using l by (simp add: proxy_forward_body_def proxy_try_body_def)
  from proxy_no_call[OF d this] l show ?thesis by simp
qed

text \<open>
  Claim C2. A body that is not valid JSON is to be forwarded byte for byte, and the
  comment at line 86 says so. Where the body decodes as UTF-8 and \<open>json.loads\<close> raises
  \<open>JSONDecodeError\<close>, it is (\<open>proxy_invalid_json_verbatim\<close>). But the body is decoded
  at line 57, before the inner \<open>try\<close>: the one-byte body \<open>0xFF\<close> is not valid JSON, its
  decoding raises, and \<open>proxy\<close> returns the error object without any outbound call.
\<close>

theorem proxy_non_utf8_body_not_forwarded:
  "proxy env endpoint [CHR 0xFF] =
     \<lparr>printed = [LogError (exc_str env (UnicodeDecodeError [CHR 0xFF]))],
      calls = [],
      returned = JObj [(''error'', JStr (exc_str env (UnicodeDecodeError [CHR 0xFF]))),
                       (''status'', JInt 500)]\<rparr>"
  by (simp add: proxy_def decode_utf8_def utf8_char_def proxy_except_def Let_def)

subsection \<open>Bodies that raise in the inner \<open>try\<close>\<close>

lemma proxy_scalar_body:
  assumes "decode_utf8 body = Some s"
    and "json_loads env s = Inr v"
    and "v = JNull \<or> (\<exists>b. v = JBool b) \<or> (\<exists>i. v = JInt i) \<or> (\<exists>w. v = JFloat w)"
  shows "calls (proxy env endpoint body) = []
       \<and> returned (proxy env endpoint body) =
           JObj [(''error'', JStr (exc_str env (TypeError (NotIterable v)))),
                 (''status'', JInt 500)]"
proof -
  have "snd (proxy_forward_body env endpoint s) = Inl (TypeError (NotIterable v))"
    using assms(2,3) by (auto simp add: proxy_forward_body_def proxy_try_body_def)
  from proxy_no_call[OF assms(1) this] show ?thesis .
qed

text \<open>
  Claim C3. A body that is valid JSON without a \<open>function_call\<close> key is to be forwarded
  unchanged and never to give an error, and the comment at line 82 says so. For a
  JSON object it is (\<open>proxy_object_without_function_call_verbatim\<close>). But the test at
  line 69 is \<open>in\<close> on whatever \<open>json.loads\<close> returned: the body \<open>5\<close> parses to the
  number 5, which is not iterable, the test raises TypeError, and \<open>proxy\<close> returns the
  error object without any outbound call.
\<close>

theorem proxy_json_number_body_not_forwarded:
  "json_loads demo_env ''5'' = Inr (JInt 5)
   \<and> calls (proxy demo_env ''query'' ''5'') = []
   \<and> returned (proxy demo_env ''query'' ''5'') =
       JObj [(''error'', JStr ''TypeError''), (''status'', JInt 500)]"
proof -
  have d: "decode_utf8 ''5'' = Some ''5''"
    by (rule decode_utf8_ascii) simp
  have l: "json_loads demo_env ''5'' = Inr (JInt 5)"
    by (simp add: demo_env_def loads_table_def)
  from proxy_scalar_body[OF d l, of "''query''"] l show ?thesis
    by (simp add: demo_env_def)
qed

text \<open>
  Claim C10. When the body parses to a JSON object whose \<open>function_call\<close> entry is not
  itself a JSON object, \<open>function_call.get\<close> raises AttributeError at line 71:
  \<open>proxy\<close> makes no outbound call and returns the error object with status 500.
\<close>

theorem proxy_function_call_not_object:
  assumes "decode_utf8 body = Some s"
    and "json_loads env s = Inr (JObj items)"
    and "map_of items ''function_call'' = Some v"
    and "\<forall>fc. v \<noteq> JObj fc"
  shows "calls (proxy env endpoint body) = []
       \<and> returned (proxy env endpoint body) =
           JObj [(''error'', JStr (exc_str env (AttributeError v ''get''))),
                 (''status'', JInt 500)]"
proof -
  from assms(3) have k: "''function_call'' \<in> fst ` set items"
    by (metis map_of_SomeD fst_conv image_eqI)
  from assms(4) have g: "py_get v ''name'' JNull = Inl (AttributeError v ''get'')"
    by (cases v) simp_all
  have "snd (proxy_forward_body env endpoint s) = Inl (AttributeError v ''get'')"
    using assms(2,3) k g by (simp add: proxy_forward_body_def proxy_try_body_def)
  from proxy_no_call[OF assms(1) this] show ?thesis .
qed

theorem proxy_function_call_not_object_witness:
  \<open>calls (proxy demo_env ''query'' ''{"function_call": 1}'') = []
   \<and> returned (proxy demo_env ''query'' ''{"function_call": 1}'') =
       JObj [(''error'', JStr ''AttributeError''), (''status'', JInt 500)]\<close>
proof -
  let ?body = \<open>''{"function_call": 1}''\<close>
  have d: "decode_utf8 ?body = Some ?body"
    by (rule decode_utf8_ascii) simp
  have l: "json_loads demo_env ?body = Inr (JObj [(''function_call'', JInt 1)])"
    by (simp add: demo_env_def loads_table_def)
  have m: "map_of [(''function_call'', JInt 1)] ''function_call'' = Some (JInt 1)"
    by simp
  have n: "\<forall>fc. JInt 1 \<noteq> JObj fc"
    by simp
  from proxy_function_call_not_object[OF d l m n, of "''query''"] show ?thesis
    by (simp add: demo_env_def)
qed

subsection \<open>Exceptions\<close>

lemma proxy_body_exception:
  assumes "decode_utf8 body = Some s"
    and "snd (proxy_try_body env endpoint s) = Inl e"
    and "\<not> is_JSONDecodeError e"
  shows "calls (proxy env endpoint body) = []
       \<and> returned (proxy env endpoint body) =
           JObj [(''error'', JStr (exc_str env e)), (''status'', JInt 500)]"
proof -
  have "snd (proxy_forward_body env endpoint s) = Inl e"
    using assms(2,3)
    by (cases "proxy_try_body env endpoint s"; cases e) (simp_all add: proxy_forward_body_def)
  from proxy_no_call[OF assms(1) this] show ?thesis .
qed

lemma proxy_response_exception:
  assumes "resp_json r = Inl e" and "\<not> is_JSONDecodeError e"
  shows "snd (proxy_response r) = Inl e"
  using assms by (cases e) (simp_all add: proxy_response_def)

text \<open>
  The three shapes of the returned value: the error object, the parsed upstream
  answer, or the wrapper of an answer that is not JSON.
\<close>

lemma proxy_returned_shapes:
  "(\<exists>e. returned (proxy env endpoint body) =
          JObj [(''error'', JStr (exc_str env e)), (''status'', JInt 500)])
   \<or> (\<exists>req r. calls (proxy env endpoint body) = [req] \<and> client_post env req = Inr r
         \<and> (resp_json r = Inr (returned (proxy env endpoint body))
            \<or> (\<exists>m. resp_json r = Inl (JSONDecodeError m))
              \<and> returned (proxy env endpoint body) =
                  JObj [(''response'', JStr (resp_text r)),
                        (''status'', JInt (resp_status_code r)),
                        (''error'', JNull)]))"
proof (cases "calls (proxy env endpoint body) = []")
  case True
  show ?thesis
  proof (cases "decode_utf8 body")
    case None
    then show ?thesis by (auto simp add: proxy_def proxy_except_def Let_def)
  next
    case (Some s)
    show ?thesis
    proof (cases "snd (proxy_forward_body env endpoint s)")
      case (Inl e)
      from proxy_no_call[OF Some this] show ?thesis by blast
    next
      case (Inr fb)
      from proxy_calls_forward[OF Some this] True show ?thesis by simp
    qed
  qed
next
  case False
  with proxy_calls_at_most_one[of env endpoint body]
  obtain req where c: "calls (proxy env endpoint body) = [req]" by auto
  show ?thesis
  proof (cases "client_post env req")
    case (Inl e)
    with proxy_after_call[OF c] show ?thesis by auto
  next
    case post: (Inr r)
    show ?thesis
    proof (cases "resp_json r")
      case (Inr v)
      with proxy_after_call[OF c] post c show ?thesis
        by (cases "py_print_value v") (auto simp add: proxy_response_def)
    next
      case (Inl e)
      with proxy_after_call[OF c] post c show ?thesis
        by (cases e) (auto simp add: proxy_response_def Let_def)
    qed
  qed
qed

text \<open>
  Claim C4. Whatever exception \<open>e\<close> reaches the outer handler, \<open>proxy\<close> returns exactly
  the object with \<open>error\<close> set to \<open>str(e)\<close> and \<open>status\<close> set to 500. The exception may
  come from decoding the body, from the body of the inner \<open>try\<close> (anything but the
  \<open>JSONDecodeError\<close> that the inner handler turns into the passthrough), from the
  outbound call (any exception at all, a timeout and a connection failure among
  them), from \<open>response.json()\<close> (anything but the \<open>JSONDecodeError\<close> that gives the
  wrapper of a non-JSON response), or from printing the parsed answer. \<open>proxy\<close> is a
  total function: every exception of the model ends in a returned value.
\<close>

theorem proxy_exception_gives_error_500:
  assumes "decode_utf8 body = None \<and> e = UnicodeDecodeError body
         \<or> decode_utf8 body = Some body
             \<and> snd (proxy_try_body env endpoint body) = Inl e \<and> \<not> is_JSONDecodeError e
         \<or> (\<exists>req. calls (proxy env endpoint body) = [req] \<and> client_post env req = Inl e)
         \<or> (\<exists>req r. calls (proxy env endpoint body) = [req] \<and> client_post env req = Inr r
                \<and> resp_json r = Inl e \<and> \<not> is_JSONDecodeError e)
         \<or> (\<exists>req r v. calls (proxy env endpoint body) = [req] \<and> client_post env req = Inr r
                \<and> resp_json r = Inr v \<and> py_print_value v = Some e)"
  shows "returned (proxy env endpoint body) =
           JObj [(''error'', JStr (exc_str env e)), (''status'', JInt 500)]"
  using assms
proof (elim disjE conjE exE)
  assume "decode_utf8 body = None" "e = UnicodeDecodeError body"
  then show ?thesis by (simp add: proxy_def proxy_except_def Let_def)
next
  assume "decode_utf8 body = Some body" "snd (proxy_try_body env endpoint body) = Inl e"
    "\<not> is_JSONDecodeError e"
  from proxy_body_exception[OF this] show ?thesis by simp
next
  fix req assume c: "calls (proxy env endpoint body) = [req]" and "client_post env req = Inl e"
  with proxy_after_call[OF c] show ?thesis by simp
next
  fix req r assume c: "calls (proxy env endpoint body) = [req]"
    and p: "client_post env req = Inr r" and j: "resp_json r = Inl e" "\<not> is_JSONDecodeError e"
  from proxy_after_call[OF c] p proxy_response_exception[OF j] show ?thesis by simp
next
  fix req r v assume c: "calls (proxy env endpoint body) = [req]"
    and p: "client_post env req = Inr r" and j: "resp_json r = Inr v"
    and q: "py_print_value v = Some e"
  from j q have "snd (proxy_response r) = Inl e"
    by (simp add: proxy_response_def)
  with proxy_after_call[OF c] p show ?thesis by simp
qed

theorem proxy_exception_gives_error_500_witness:
  \<open>returned (proxy demo_env ''slow'' ''{"sql": "SELECT 1"}'') =
     JObj [(''error'', JStr ''timed out''), (''status'', JInt 500)]
   \<and> returned (proxy demo_env ''nowhere'' ''{"sql": "SELECT 1"}'') =
     JObj [(''error'', JStr ''All connection attempts failed''), (''status'', JInt 500)]\<close>
proof -
  let ?body = \<open>''{"sql": "SELECT 1"}''\<close>
  have t: "client_post demo_env (proxy_request demo_env ''slow'' ?body) =
             Inl (TimeoutException ''timed out'')"
    by (simp add: demo_env_def demo_upstream_def proxy_request_def UPSTREAM_def)
  have c: "client_post demo_env (proxy_request demo_env ''nowhere'' ?body) =
             Inl (ConnectError ''All connection attempts failed'')"
    by (simp add: demo_env_def demo_upstream_def proxy_request_def UPSTREAM_def)
  have "returned (proxy demo_env ''slow'' ?body) =
          JObj [(''error'', JStr (exc_str demo_env (TimeoutException ''timed out''))),
                (''status'', JInt 500)]"
    using demo_passthrough[of "''slow''"] t
    by (intro proxy_exception_gives_error_500) blast
  moreover have "returned (proxy demo_env ''nowhere'' ?body) =
          JObj [(''error'', JStr (exc_str demo_env (ConnectError ''All connection attempts failed''))),
                (''status'', JInt 500)]"
    using demo_passthrough[of "''nowhere''"] c
    by (intro proxy_exception_gives_error_500) blast
  ultimately show ?thesis by (simp add: demo_env_def)
qed

subsection \<open>The name of the envelope\<close>

text \<open>
  A \<open>name\<close> that differs from the endpoint and can be printed changes nothing but the
  log: take an envelope with such a \<open>name\<close>, and an envelope with the same \<open>parameters\<close>
  whose \<open>name\<close> is the endpoint. On the same endpoint both lead to the same outbound
  call, whose content is the serialization of \<open>parameters\<close>, and to the same returned
  value.
\<close>

lemma proxy_name_mismatch_ignored:
  assumes "decode_utf8 body = Some s"
    and "json_loads env s = Inr (JObj items)"
    and "map_of items ''function_call'' = Some (JObj fc)"
    and "map_of fc ''name'' = Some name" and "name \<noteq> JStr endpoint"
    and "py_print_value name = None"
    and "decode_utf8 body' = Some s'"
    and "json_loads env s' = Inr (JObj items')"
    and "map_of items' ''function_call'' = Some (JObj fc')"
    and "map_of fc' ''name'' = Some (JStr endpoint)"
    and "map_of fc' ''parameters'' = map_of fc ''parameters''"
  shows "calls (proxy env endpoint body) =
           [proxy_request env endpoint
              (json_dumps env (case map_of fc ''parameters'' of None \<Rightarrow> JObj [] | Some p \<Rightarrow> p))]
       \<and> calls (proxy env endpoint body) = calls (proxy env endpoint body')
       \<and> returned (proxy env endpoint body) = returned (proxy env endpoint body')"
proof -
  have n: "py_print_value (case map_of fc ''name'' of None \<Rightarrow> JNull | Some n \<Rightarrow> n) = None"
    using assms(4,6) by simp
  have "encodable s'"
    using assms(7) by (rule decode_utf8_encodable)
  have f: "snd (proxy_forward_body env endpoint s) =
        Inr (json_dumps env (case map_of fc ''parameters'' of None \<Rightarrow> JObj [] | Some p \<Rightarrow> p))"
    using assms(2,3) n by (rule forward_envelope)
  have t': "snd (proxy_try_body env endpoint s') =
        Inr (json_dumps env (case map_of fc' ''parameters'' of None \<Rightarrow> JObj [] | Some p \<Rightarrow> p))"
  proof -
    from assms(9) have "''function_call'' \<in> fst ` set items'"
      by (metis map_of_SomeD fst_conv image_eqI)
    with assms(8,9,10) show ?thesis
      by (simp add: proxy_try_body_def Let_def)
  qed
  have f': "snd (proxy_forward_body env endpoint s') =
        Inr (json_dumps env (case map_of fc' ''parameters'' of None \<Rightarrow> JObj [] | Some p \<Rightarrow> p))"
    using t' by (cases "proxy_try_body env endpoint s'") (simp add: proxy_forward_body_def)
  from f f' assms(11)
  have "snd (proxy_forward_body env endpoint s) = snd (proxy_forward_body env endpoint s')"
    by simp
  from proxy_determined_by_forward_body[OF assms(1) assms(7) this]
    proxy_calls_forward[OF assms(1) f]
  show ?thesis by simp
qed

lemma proxy_name_mismatch_ignored_example:
  \<open>calls (proxy demo_env ''query''
            ''{"function_call": {"name": "other", "parameters": {"sql": "SELECT 1"}}}'') =
     [\<lparr>req_method = POST, req_url = ''http://localhost:8000/mcp/query'',
       req_content = ''{"sql": "SELECT 1"}'',
       req_headers = [(''Content-Type'', ''application/json'')],
       req_auth = (''instabids'', ''secure123password''), req_timeout = 30\<rparr>]
   \<and> returned (proxy demo_env ''query''
            ''{"function_call": {"name": "other", "parameters": {"sql": "SELECT 1"}}}'') =
     returned (proxy demo_env ''query''
            ''{"function_call": {"name": "query", "parameters": {"sql": "SELECT 1"}}}'')\<close>
proof -
  let ?other = \<open>''{"function_call": {"name": "other", "parameters": {"sql": "SELECT 1"}}}''\<close>
  let ?query = \<open>''{"function_call": {"name": "query", "parameters": {"sql": "SELECT 1"}}}''\<close>
  let ?params = "JObj [(''sql'', JStr ''SELECT 1'')]"
  let ?fc = "[(''name'', JStr ''other''), (''parameters'', ?params)]"
  let ?fc' = "[(''name'', JStr ''query''), (''parameters'', ?params)]"
  have d: "decode_utf8 ?other = Some ?other"
    by (rule decode_utf8_ascii) simp
  have d': "decode_utf8 ?query = Some ?query"
    by (rule decode_utf8_ascii) simp
  have l: "json_loads demo_env ?other = Inr (JObj [(''function_call'', JObj ?fc)])"
    by (simp add: demo_env_def loads_table_def)
  have l': "json_loads demo_env ?query = Inr (JObj [(''function_call'', JObj ?fc')])"
    by (simp add: demo_env_def loads_table_def)
  have m: "map_of [(''function_call'', JObj ?fc)] ''function_call'' = Some (JObj ?fc)"
    by simp
  have m': "map_of [(''function_call'', JObj ?fc')] ''function_call'' = Some (JObj ?fc')"
    by simp
  have n: "map_of ?fc ''name'' = Some (JStr ''other'')"
    by simp
  have n': "map_of ?fc' ''name'' = Some (JStr ''query'')"
    by simp
  have ne: "JStr ''other'' \<noteq> JStr ''query''"
    by simp
  have "encodable ''other''"
    by (rule encodable_ascii) simp
  then have pr: "py_print_value (JStr ''other'') = None"
    by simp
  have p: "map_of ?fc' ''parameters'' = map_of ?fc ''parameters''"
    by simp
  from proxy_name_mismatch_ignored[OF d l m n ne pr d' l' m' n' p]
  show ?thesis
    by (simp add: proxy_request_def UPSTREAM_def AUTH_def demo_env_def dumps_table_def)
qed

text \<open>
  Claim C5. A \<open>name\<close> that differs from the endpoint is to change nothing: the call is
  never to be aborted or turned into an error, and the comment and the warning of
  lines 74 to 76 say that the check only warns. But the warning prints the \<open>name\<close>:
  when the \<open>name\<close> is the string \<open>"\ud800"\<close>, a lone surrogate, the print raises
  \<open>UnicodeEncodeError\<close>, which the inner handler does not catch, and \<open>proxy\<close> returns the
  error object without any outbound call; the envelope with the same \<open>parameters\<close>
  and the matching \<open>name\<close> is forwarded.
\<close>

theorem proxy_unprintable_name_mismatch_aborts:
  \<open>json_loads demo_env (''{"function_call": {"name": "'' @ escape_ud800 @ ''", "parameters": {}}}'') =
     Inr (JObj [(''function_call'',
            JObj [(''name'', JStr lone_surrogate), (''parameters'', JObj [])])])
   \<and> calls (proxy demo_env ''list_tables''
        (''{"function_call": {"name": "'' @ escape_ud800 @ ''", "parameters": {}}}'')) = []
   \<and> returned (proxy demo_env ''list_tables''
        (''{"function_call": {"name": "'' @ escape_ud800 @ ''", "parameters": {}}}'')) =
       JObj [(''error'', JStr ''UnicodeEncodeError''), (''status'', JInt 500)]
   \<and> calls (proxy demo_env ''list_tables''
        ''{"function_call": {"name": "list_tables", "parameters": {}}}'') =
       [proxy_request demo_env ''list_tables'' ''{}'']\<close>
proof -
  let ?bad = \<open>''{"function_call": {"name": "'' @ escape_ud800 @ ''", "parameters": {}}}''\<close>
  have d: "decode_utf8 ?bad = Some ?bad"
    by (rule decode_utf8_ascii) (simp add: escape_ud800_def)
  have l: "json_loads demo_env ?bad =
             Inr (JObj [(''function_call'',
                    JObj [(''name'', JStr lone_surrogate), (''parameters'', JObj [])])])"
    by (simp add: demo_env_def loads_table_def escape_ud800_def)
  have ne: "JStr lone_surrogate \<noteq> JStr ''list_tables''" "lone_surrogate \<noteq> []"
    by (simp_all add: lone_surrogate_def)
  have "snd (proxy_forward_body demo_env ''list_tables'' ?bad) =
          Inl (UnicodeEncodeError lone_surrogate)"
    using l ne lone_surrogate_not_encodable
    by (simp add: proxy_forward_body_def proxy_try_body_def Let_def)
  from proxy_no_call[OF d this]
  have bad: "calls (proxy demo_env ''list_tables'' ?bad) = []
           \<and> returned (proxy demo_env ''list_tables'' ?bad) =
               JObj [(''error'', JStr ''UnicodeEncodeError''), (''status'', JInt 500)]"
    by (simp add: demo_env_def)
  from demo_list_tables bad l show ?thesis
    by simp
qed

subsection \<open>Translating the upstream response\<close>

text \<open>
  When the outbound call was made and returned a response whose \<open>response.json()\<close>
  gives a value that can be printed, \<open>proxy\<close> returns that value itself; the status
  code of the response is no part of it.
\<close>

lemma proxy_returns_upstream_json:
  assumes "calls (proxy env endpoint body) = [req]"
    and "client_post env req = Inr r"
    and "resp_json r = Inr v"
    and "py_print_value v = None"
  shows "returned (proxy env endpoint body) = v"
  using proxy_after_call[OF assms(1)] assms(2,3,4)
  by (simp add: proxy_response_def)

lemma proxy_returns_upstream_json_example:
  \<open>returned (proxy demo_env ''list_tables''
               ''{"function_call": {"name": "list_tables", "parameters": {}}}'') =
     JObj [(''rows'', JArr [])]\<close>
proof -
  let ?r = \<open>\<lparr>resp_status_code = 200, resp_json = Inr (JObj [(''rows'', JArr [])]),
             resp_text = ''{"rows": []}''\<rparr>\<close>
  have p: "client_post demo_env (proxy_request demo_env ''list_tables'' ''{}'') = Inr ?r"
    by (simp add: demo_env_def demo_upstream_def proxy_request_def UPSTREAM_def)
  have j: "resp_json ?r = Inr (JObj [(''rows'', JArr [])])"
    by simp
  have q: "py_print_value (JObj [(''rows'', JArr [])]) = None"
    by simp
  from proxy_returns_upstream_json[OF demo_list_tables p j q] show ?thesis .
qed

text \<open>
  Claim C6. The parsed upstream answer is to be returned as it is, and line 111
  returns it. But line 104 prints it first: when the upstream answers with the
  JSON string \<open>"\ud800"\<close>, \<open>response.json()\<close> gives a string with a lone surrogate, the
  print raises \<open>UnicodeEncodeError\<close>, and \<open>proxy\<close> returns the error object in place of
  the parsed value.
\<close>

theorem proxy_unprintable_upstream_json_not_returned:
  \<open>calls (proxy demo_env ''echo'' ''{"sql": "SELECT 1"}'') =
     [proxy_request demo_env ''echo'' ''{"sql": "SELECT 1"}'']
   \<and> client_post demo_env (proxy_request demo_env ''echo'' ''{"sql": "SELECT 1"}'') =
       Inr \<lparr>resp_status_code = 200, resp_json = Inr (JStr lone_surrogate),
            resp_text = ''"'' @ escape_ud800 @ ''"''\<rparr>
   \<and> returned (proxy demo_env ''echo'' ''{"sql": "SELECT 1"}'') =
       JObj [(''error'', JStr ''UnicodeEncodeError''), (''status'', JInt 500)]\<close>
proof -
  let ?body = \<open>''{"sql": "SELECT 1"}''\<close>
  let ?r = \<open>\<lparr>resp_status_code = 200, resp_json = Inr (JStr lone_surrogate),
             resp_text = ''"'' @ escape_ud800 @ ''"''\<rparr>\<close>
  have p: "client_post demo_env (proxy_request demo_env ''echo'' ?body) = Inr ?r"
    by (simp add: demo_env_def demo_upstream_def proxy_request_def UPSTREAM_def)
  have "snd (proxy_response ?r) = Inl (UnicodeEncodeError lone_surrogate)"
    using lone_surrogate_not_encodable by (simp add: proxy_response_def)
  with proxy_after_call[OF demo_passthrough, of "''echo''"] p
  have "returned (proxy demo_env ''echo'' ?body) =
          JObj [(''error'', JStr (exc_str demo_env (UnicodeEncodeError lone_surrogate))),
                (''status'', JInt 500)]"
    by simp
  with demo_passthrough[of "''echo''"] p show ?thesis
    by (simp add: demo_env_def)
qed

text \<open>
  When the outbound call was made and returned a response whose \<open>response.json()\<close>
  raises \<open>JSONDecodeError\<close>, \<open>proxy\<close> returns the object with \<open>response\<close> set to the text
  of the response, \<open>status\<close> set to the status code of the upstream, and \<open>error\<close> set to
  \<open>None\<close>.
\<close>

lemma proxy_wraps_non_json_response:
  assumes "calls (proxy env endpoint body) = [req]"
    and "client_post env req = Inr r"
    and "resp_json r = Inl (JSONDecodeError m)"
  shows "returned (proxy env endpoint body) =
           JObj [(''response'', JStr (resp_text r)),
                 (''status'', JInt (resp_status_code r)),
                 (''error'', JNull)]"
  using proxy_after_call[OF assms(1)] assms(2,3)
  by (simp add: proxy_response_def Let_def)

lemma proxy_wraps_non_json_response_example:
  \<open>returned (proxy demo_env ''health'' ''{"sql": "SELECT 1"}'') =
     JObj [(''response'', JStr ''not json''), (''status'', JInt 200), (''error'', JNull)]\<close>
proof -
  let ?body = \<open>''{"sql": "SELECT 1"}''\<close>
  let ?r = \<open>\<lparr>resp_status_code = 200,
             resp_json = Inl (JSONDecodeError ''Expecting value: line 1 column 1 (char 0)''),
             resp_text = ''not json''\<rparr>\<close>
  have p: "client_post demo_env (proxy_request demo_env ''health'' ?body) = Inr ?r"
    by (simp add: demo_env_def demo_upstream_def proxy_request_def UPSTREAM_def)
  have j: "resp_json ?r = Inl (JSONDecodeError ''Expecting value: line 1 column 1 (char 0)'')"
    by simp
  from proxy_wraps_non_json_response[OF demo_passthrough p j] show ?thesis by simp
qed

text \<open>
  Claim C7. An upstream answer that does not parse as JSON is to be returned in the
  wrapper, with the status code of the upstream, and lines 105 to 108 do so when
  \<open>response.json()\<close> raises \<open>JSONDecodeError\<close>. But an answer that is not text at all
  does not parse as JSON either: for the one-byte body \<open>0xFF\<close>, \<open>response.json()\<close> raises
  \<open>UnicodeDecodeError\<close>, which line 105 does not catch, and \<open>proxy\<close> returns the error
  object with status 500; the status code of the upstream and the text are lost.
\<close>

theorem proxy_undecodable_response_not_wrapped:
  \<open>calls (proxy demo_env ''binary'' ''{"sql": "SELECT 1"}'') =
     [proxy_request demo_env ''binary'' ''{"sql": "SELECT 1"}'']
   \<and> client_post demo_env (proxy_request demo_env ''binary'' ''{"sql": "SELECT 1"}'') =
       Inr \<lparr>resp_status_code = 200, resp_json = Inl (UnicodeDecodeError [CHR 0xFF]),
            resp_text = [CHR 0xEF, CHR 0xBF, CHR 0xBD]\<rparr>
   \<and> returned (proxy demo_env ''binary'' ''{"sql": "SELECT 1"}'') =
       JObj [(''error'', JStr ''UnicodeDecodeError''), (''status'', JInt 500)]\<close>
proof -
  let ?body = \<open>''{"sql": "SELECT 1"}''\<close>
  let ?r = \<open>\<lparr>resp_status_code = 200, resp_json = Inl (UnicodeDecodeError [CHR 0xFF]),
             resp_text = [CHR 0xEF, CHR 0xBF, CHR 0xBD]\<rparr>\<close>
  have p: "client_post demo_env (proxy_request demo_env ''binary'' ?body) = Inr ?r"
    by (simp add: demo_env_def demo_upstream_def proxy_request_def UPSTREAM_def)
  have "snd (proxy_response ?r) = Inl (UnicodeDecodeError [CHR 0xFF])"
    by (simp add: proxy_response_def)
  with proxy_after_call[OF demo_passthrough, of "''binary''"] p
  have "returned (proxy demo_env ''binary'' ?body) =
          JObj [(''error'', JStr (exc_str demo_env (UnicodeDecodeError [CHR 0xFF]))),
                (''status'', JInt 500)]"
    by simp
  with demo_passthrough[of "''binary''"] p show ?thesis
    by (simp add: demo_env_def)
qed

subsection \<open>The outbound call\<close>

text \<open>
  Claim C8. Every outbound call that \<open>proxy\<close> issues is a POST to the upstream base
  URL, a slash and the endpoint as received, with the single header
  \<open>Content-Type: application/json\<close>, the fixed credential pair and the timeout 30;
  and it is the only call of that invocation. Nothing of it but the URL and the
  content depends on the request.
\<close>

theorem proxy_outbound_call_shape:
  assumes "req \<in> set (calls (proxy env endpoint body))"
  shows "req_method req = POST
       \<and> req_url req = UPSTREAM env @ ''/'' @ endpoint
       \<and> req_headers req = [(''Content-Type'', ''application/json'')]
       \<and> req_auth req = (''instabids'', ''secure123password'')
       \<and> req_timeout req = 30
       \<and> calls (proxy env endpoint body) = [req]"
  using assms proxy_calls_at_most_one[of env endpoint body]
  by (auto simp add: proxy_request_def AUTH_def)

theorem proxy_outbound_call_shape_witness:
  \<open>calls (proxy demo_env ''health'' ''not json'') =
     [\<lparr>req_method = POST, req_url = ''http://localhost:8000/mcp/health'',
       req_content = ''not json'',
       req_headers = [(''Content-Type'', ''application/json'')],
       req_auth = (''instabids'', ''secure123password''), req_timeout = 30\<rparr>]\<close>
proof -
  let ?req = "proxy_request demo_env ''health'' ''not json''"
  have d: "decode_utf8 ''not json'' = Some ''not json''"
    by (rule decode_utf8_ascii) simp
  have l: "json_loads demo_env ''not json'' =
             Inl (JSONDecodeError ''Expecting value: line 1 column 1 (char 0)'')"
    by (simp add: demo_env_def loads_table_def)
  from proxy_invalid_json_verbatim[OF d l]
  have c: "calls (proxy demo_env ''health'' ''not json'') = [?req]" .
  then have "?req \<in> set (calls (proxy demo_env ''health'' ''not json''))"
    by simp
  from proxy_outbound_call_shape[OF this] c show ?thesis
    by (simp add: proxy_request_def UPSTREAM_def demo_env_def)
qed

subsection \<open>The schema handler\<close>

text \<open>
  The handler on its own. With an Accept header that has \<open>text/\<close> in it, it builds the
  plain-text response. Otherwise it passes \<open>gzip=True\<close> to \<open>JSONResponse\<close>, whose
  constructor has no such parameter, and raises TypeError.
\<close>

lemma get_openapi_schema_json_branch:
  assumes "\<not> str_contains (case map_of headers ''accept'' of None \<Rightarrow> [] | Some v \<Rightarrow> v) ''text/''"
    and "JSONResponse_params fw = starlette_params"
  shows "get_openapi_schema fw headers = Inl (TypeError (UnexpectedKeyword ''gzip''))"
  using assms
  by (simp add: get_openapi_schema_def py_construct_def starlette_params_def)

lemma get_openapi_schema_text_branch:
  assumes "str_contains (case map_of headers ''accept'' of None \<Rightarrow> [] | Some v \<Rightarrow> v) ''text/''"
    and "Response_params fw = starlette_params"
  shows "get_openapi_schema fw headers =
           Inr \<lparr>resp_class = ''Response'',
                resp_args = [(''content'', ArgStr (json_dumps_indent2 fw (app_openapi fw))),
                             (''media_type'', ArgStr ''text/plain; charset=utf-8'')]\<rparr>"
  using assms
  by (simp add: get_openapi_schema_def py_construct_def starlette_params_def)

text \<open>
  The handler in the application. \<open>GET /openapi.json\<close> is routed to the schema
  endpoint of FastAPI, which was registered first, and never to \<open>get_openapi_schema\<close>;
  the answer is the JSON response of the framework, whatever the headers.
\<close>

lemma resolve_openapi_json: "resolve GET ''/openapi.json'' = Some FastAPI_openapi"
  by (simp add: resolve_def app_routes_def)

lemma openapi_json_response_any_headers:
  assumes "JSONResponse_params fw = starlette_params"
  shows "openapi_json_response fw headers =
           Some (Inr \<lparr>resp_class = ''JSONResponse'',
                      resp_args = [(''content'', ArgJson (app_openapi fw))]\<rparr>)"
  using assms
  by (simp add: openapi_json_response_def resolve_openapi_json fastapi_openapi_def
        py_construct_def starlette_params_def)

text \<open>
  Claim C9. \<open>GET /openapi.json\<close> is to give the schema as JSON, and as indented plain
  text when the Accept header has \<open>text/\<close> in it, which is what lines 189 to 192 of
  the handler are written to do. But the handler is never reached: with
  \<open>Accept: text/plain\<close> the request is answered by the route of the framework, with
  the schema as a JSON response and not as plain text.
\<close>

theorem openapi_json_accept_text_answered_as_json:
  "openapi_json_response
     \<lparr>app_openapi = schema, json_dumps_indent2 = dumps,
      Response_params = starlette_params, JSONResponse_params = starlette_params\<rparr>
     [(''accept'', ''text/plain'')] =
   Some (Inr \<lparr>resp_class = ''JSONResponse'', resp_args = [(''content'', ArgJson schema)]\<rparr>)"
  by (simp add: openapi_json_response_def resolve_def app_routes_def fastapi_openapi_def
        py_construct_def starlette_params_def)

end
